theory Spec2Isabelle
  imports Main
begin

section \<open>The application plugin interface of CloudLaunch\<close>

text \<open>
  The source is \<^verbatim>\<open>cloudlaunch/backend_plugins/app_plugin.py\<close>: one class,
  \<^verbatim>\<open>AppPlugin\<close>, whose seven operations are declared with the decorators of
  \<^verbatim>\<open>abc\<close> and whose bodies are all \<^verbatim>\<open>pass\<close>. The docstrings carry the
  contract an application plugin is expected to honour.
\<close>

subsection \<open>Python values and exceptions\<close>

text \<open>
  The values the interface exchanges: \<^verbatim>\<open>None\<close>, booleans, integers, strings,
  dictionaries with string keys (in insertion order), and objects the plugin only
  passes on (the provider, the task, a plugin instance), known by a label.
\<close>

datatype pyval =
    PyNone
  | PyBool bool
  | PyInt int
  | PyStr string
  | PyDict "(string \<times> pyval) list"
  | PyObj string

text \<open>
  Exceptions are values. \<^verbatim>\<open>TypeError\<close> and \<^verbatim>\<open>AttributeError\<close> are Python's own;
  the others are the failures the docstrings and the specification name.
\<close>

datatype error =
    TypeError
  | AttributeError
  | ValidationError "(string \<times> string) list"
  | ProvisioningError pyval
  | ConfigurationError bool pyval

text \<open>A call runs in a world \<open>'w\<close> (the provider's resources, the heap) and returns
  a value or raises, together with the world it leaves behind.\<close>

type_synonym 'w outcome = "(error + pyval) \<times> 'w"

type_synonym 'w pyfun = "pyval list \<Rightarrow> 'w \<Rightarrow> 'w outcome"

definition dict_get :: "pyval \<Rightarrow> string \<Rightarrow> pyval option" where
  "dict_get v k = (case v of PyDict kvs \<Rightarrow> map_of kvs k | _ \<Rightarrow> None)"

definition has_key :: "pyval \<Rightarrow> string \<Rightarrow> bool" where
  "has_key v k = (dict_get v k \<noteq> None)"

definition dict_keys :: "pyval \<Rightarrow> string set" where
  "dict_keys v = (case v of PyDict kvs \<Rightarrow> fst ` set kvs | _ \<Rightarrow> {})"

definition is_bool :: "pyval \<Rightarrow> bool" where
  "is_bool v = (case v of PyBool b \<Rightarrow> True | _ \<Rightarrow> False)"

subsection \<open>The operations of \<^verbatim>\<open>AppPlugin\<close>\<close>

text \<open>
  Each body is \<^verbatim>\<open>pass\<close>: the call touches nothing and returns \<^verbatim>\<open>None\<close>. The two
  static operations take no \<^verbatim>\<open>self\<close>; the five others do.
\<close>

definition process_app_config ::
  "pyval \<Rightarrow> pyval \<Rightarrow> pyval \<Rightarrow> pyval \<Rightarrow> 'w \<Rightarrow> 'w outcome" where
  "process_app_config provider name cloud_config app_config w = (Inr PyNone, w)"

definition sanitise_app_config :: "pyval \<Rightarrow> 'w \<Rightarrow> 'w outcome" where
  "sanitise_app_config app_config w = (Inr PyNone, w)"

definition provision_host ::
  "pyval \<Rightarrow> pyval \<Rightarrow> pyval \<Rightarrow> pyval \<Rightarrow> pyval \<Rightarrow> pyval \<Rightarrow> pyval \<Rightarrow> 'w \<Rightarrow> 'w outcome" where
  "provision_host self provider task name cloud_config app_config user_data w =
     (Inr PyNone, w)"

definition configure_host :: "pyval \<Rightarrow> pyval \<Rightarrow> pyval \<Rightarrow> 'w \<Rightarrow> 'w outcome" where
  "configure_host self host_config app_config w = (Inr PyNone, w)"

definition health_check :: "pyval \<Rightarrow> pyval \<Rightarrow> pyval \<Rightarrow> 'w \<Rightarrow> 'w outcome" where
  "health_check self provider deployment w = (Inr PyNone, w)"

definition restart :: "pyval \<Rightarrow> pyval \<Rightarrow> pyval \<Rightarrow> 'w \<Rightarrow> 'w outcome" where
  "restart self provider deployment w = (Inr PyNone, w)"

definition delete :: "pyval \<Rightarrow> pyval \<Rightarrow> pyval \<Rightarrow> 'w \<Rightarrow> 'w outcome" where
  "delete self provider deployment w = (Inr PyNone, w)"

subsection \<open>The class statement\<close>

text \<open>
  What Python 3 does with a class statement is part of what the file means, so it is
  modelled too. A method carries the flag \<^verbatim>\<open>__isabstractmethod__\<close> that
  \<^verbatim>\<open>abc.abstractmethod\<close> and \<^verbatim>\<open>abc.abstractstaticmethod\<close> set, and is either a
  static method or a plain function that binds the instance as its first argument. A
  call with the wrong number of arguments raises \<^verbatim>\<open>TypeError\<close>.
\<close>

datatype metaclass = TypeMeta | ABCMeta

datatype binding = Static | Instance

record 'w method_def =
  md_abstract :: bool
  md_binding :: binding
  md_body :: "'w pyfun"

text \<open>
  The header of a class may name a metaclass (\<^verbatim>\<open>class C(metaclass=M)\<close>); the body may
  assign \<^verbatim>\<open>__metaclass__\<close>, which Python 3 keeps as an ordinary attribute.
\<close>

record 'w class_stmt =
  cs_name :: string
  cs_metaclass_kw :: "metaclass option"
  cs_dunder_metaclass :: "metaclass option"
  cs_methods :: "(string \<times> 'w method_def) list"

definition process_app_config_fn :: "'w pyfun" where
  "process_app_config_fn args w =
     (case args of
        [provider, name, cloud_config, app_config] \<Rightarrow>
          process_app_config provider name cloud_config app_config w
      | _ \<Rightarrow> (Inl TypeError, w))"

definition sanitise_app_config_fn :: "'w pyfun" where
  "sanitise_app_config_fn args w =
     (case args of
        [app_config] \<Rightarrow> sanitise_app_config app_config w
      | _ \<Rightarrow> (Inl TypeError, w))"

definition provision_host_fn :: "'w pyfun" where
  "provision_host_fn args w =
     (case args of
        [self, provider, task, name, cloud_config, app_config, user_data] \<Rightarrow>
          provision_host self provider task name cloud_config app_config user_data w
      | _ \<Rightarrow> (Inl TypeError, w))"

definition configure_host_fn :: "'w pyfun" where
  "configure_host_fn args w =
     (case args of
        [self, host_config, app_config] \<Rightarrow> configure_host self host_config app_config w
      | _ \<Rightarrow> (Inl TypeError, w))"

definition health_check_fn :: "'w pyfun" where
  "health_check_fn args w =
     (case args of
        [self, provider, deployment] \<Rightarrow> health_check self provider deployment w
      | _ \<Rightarrow> (Inl TypeError, w))"

definition restart_fn :: "'w pyfun" where
  "restart_fn args w =
     (case args of
        [self, provider, deployment] \<Rightarrow> restart self provider deployment w
      | _ \<Rightarrow> (Inl TypeError, w))"

definition delete_fn :: "'w pyfun" where
  "delete_fn args w =
     (case args of
        [self, provider, deployment] \<Rightarrow> delete self provider deployment w
      | _ \<Rightarrow> (Inl TypeError, w))"

text \<open>
  The class as the file writes it: \<^verbatim>\<open>class AppPlugin():\<close> names no metaclass in its
  header, its body assigns \<^verbatim>\<open>__metaclass__ = abc.ABCMeta\<close>, and every method is
  decorated abstract, the first two as static methods.
\<close>

definition AppPlugin :: "'w class_stmt" where
  "AppPlugin =
     \<lparr> cs_name = ''AppPlugin'',
       cs_metaclass_kw = None,
       cs_dunder_metaclass = Some ABCMeta,
       cs_methods =
         [ (''process_app_config'',
              \<lparr> md_abstract = True, md_binding = Static, md_body = process_app_config_fn \<rparr>),
           (''sanitise_app_config'',
              \<lparr> md_abstract = True, md_binding = Static, md_body = sanitise_app_config_fn \<rparr>),
           (''provision_host'',
              \<lparr> md_abstract = True, md_binding = Instance, md_body = provision_host_fn \<rparr>),
           (''configure_host'',
              \<lparr> md_abstract = True, md_binding = Instance, md_body = configure_host_fn \<rparr>),
           (''health_check'',
              \<lparr> md_abstract = True, md_binding = Instance, md_body = health_check_fn \<rparr>),
           (''restart'',
              \<lparr> md_abstract = True, md_binding = Instance, md_body = restart_fn \<rparr>),
           (''delete'',
              \<lparr> md_abstract = True, md_binding = Instance, md_body = delete_fn \<rparr>) ] \<rparr>"

text \<open>
  Python 3 takes the metaclass of a class without bases from the header alone, and
  \<^verbatim>\<open>type\<close> when the header names none. Only \<^verbatim>\<open>ABCMeta\<close> collects the names of the
  abstract methods into \<^verbatim>\<open>__abstractmethods__\<close>, and creating an instance raises
  \<^verbatim>\<open>TypeError\<close> exactly when that collection is not empty.
\<close>

definition effective_metaclass :: "'w class_stmt \<Rightarrow> metaclass" where
  "effective_metaclass cls =
     (case cs_metaclass_kw cls of Some m \<Rightarrow> m | None \<Rightarrow> TypeMeta)"

definition abstractmethods :: "'w class_stmt \<Rightarrow> string list" where
  "abstractmethods cls =
     (if effective_metaclass cls = ABCMeta
      then map fst (filter (\<lambda>(n, md). md_abstract md) (cs_methods cls))
      else [])"

definition instantiate :: "'w class_stmt \<Rightarrow> error + pyval" where
  "instantiate cls =
     (if abstractmethods cls = [] then Inr (PyObj (cs_name cls)) else Inl TypeError)"

text \<open>
  Calling \<^verbatim>\<open>inst.m(*args)\<close>: the attribute is looked up in the class; a static method
  is called with the arguments alone, a plain function with the instance in front.
\<close>

definition call_method ::
  "'w class_stmt \<Rightarrow> string \<Rightarrow> pyval \<Rightarrow> pyval list \<Rightarrow> 'w \<Rightarrow> 'w outcome" where
  "call_method cls m inst args w =
     (case map_of (cs_methods cls) m of
        None \<Rightarrow> (Inl AttributeError, w)
      | Some md \<Rightarrow>
          (case md_binding md of
             Static \<Rightarrow> md_body md args w
           | Instance \<Rightarrow> md_body md (inst # args) w))"

text \<open>
  A plugin class conforms to the interface when it defines every operation of
  \<^verbatim>\<open>AppPlugin\<close> with the binding \<^verbatim>\<open>AppPlugin\<close> declares for it. Nothing in Python
  checks this; it is what the interface asks of a plugin's author.
\<close>

definition interface_bindings :: "(string \<times> binding) list" where
  "interface_bindings =
     map (\<lambda>(n, md). (n, md_binding md)) (cs_methods (AppPlugin :: unit class_stmt))"

definition conforms :: "'w class_stmt \<Rightarrow> bool" where
  "conforms cls =
     list_all
       (\<lambda>(n, b). case map_of (cs_methods cls) n of
                    None \<Rightarrow> False
                  | Some md \<Rightarrow> md_binding md = b)
       interface_bindings"

subsection \<open>The return contract the docstrings document\<close>

text \<open>
  The docstring of \<^verbatim>\<open>provision_host\<close> lists the keys its result must contain at
  least: \<^verbatim>\<open>cloudLaunch\<close> and \<^verbatim>\<open>host\<close>, and under \<^verbatim>\<open>host\<close> the keys
  \<^verbatim>\<open>address\<close>, \<^verbatim>\<open>pk\<close> and \<^verbatim>\<open>user\<close>. The list is transcribed as the docstring
  spells it, a key with the keys required below it.
\<close>

datatype keyspec = Key string "keyspec list"

definition provision_host_returns :: "keyspec list" where
  "provision_host_returns =
     [ Key ''cloudLaunch'' [],
       Key ''host'' [ Key ''address'' [], Key ''pk'' [], Key ''user'' [] ] ]"

fun meets :: "keyspec \<Rightarrow> pyval \<Rightarrow> bool" where
  "meets (Key k below) v =
     (case dict_get v k of
        None \<Rightarrow> False
      | Some x \<Rightarrow> list_all (\<lambda>s. meets s x) below)"

definition meets_all :: "keyspec list \<Rightarrow> pyval \<Rightarrow> bool" where
  "meets_all specs v = list_all (\<lambda>s. meets s v) specs"

text \<open>
  The docstring of \<^verbatim>\<open>health_check\<close> promises an \<^verbatim>\<open>instance_status\<close> field in the
  report, \<^verbatim>\<open>deleted\<close> when the provider does not find the instance.
\<close>

definition instance_status :: "pyval \<Rightarrow> pyval option" where
  "instance_status report = dict_get report ''instance_status''"

text \<open>
  A provider, for the purpose of asking whether it finds an instance: the identifiers
  of the instances it still has.
\<close>

type_synonym provider_state = "string list"

definition provider_finds :: "provider_state \<Rightarrow> string \<Rightarrow> bool" where
  "provider_finds instances ident = (ident \<in> set instances)"

section \<open>The lifecycle controller\<close>

text \<open>
  The file declares the operations; the component that calls them in order, and the
  plugins that implement them, are not in it. Every definition of this section
  follows the specification's description instead.
\<close>

text \<open>
  Modelled from the spec: the states of the lifecycle state machine of section 4.2
  (the Lifecycle Controller is missing from the source).
\<close>

datatype lifecycle =
    CREATED | VALIDATING | PROVISIONING | CONFIGURING
  | HEALTHY | UNHEALTHY | DELETING | DELETED | ERROR

text \<open>
  Modelled from the spec: the plugin as the Lifecycle Controller sees it (the plugin
  implementations are missing from the source, which holds the interface only). The
  types record what section 4.1 requires of each operation: the validator and the
  sanitiser are pure, so they get no world; the health check is read-only, so it reads
  the world and returns none; restart and delete answer with a boolean. The processed
  configuration is of a type \<open>'pc\<close> the controller knows nothing about.
\<close>

record ('w, 'pc) plugin =
  pl_process_app_config :: "pyval \<Rightarrow> pyval \<Rightarrow> pyval \<Rightarrow> pyval \<Rightarrow> error + 'pc"
  pl_sanitise_app_config :: "pyval \<Rightarrow> pyval"
  pl_provision_host ::
    "pyval \<Rightarrow> pyval \<Rightarrow> pyval \<Rightarrow> pyval \<Rightarrow> pyval \<Rightarrow> 'pc \<Rightarrow> 'w \<Rightarrow> (error + pyval) \<times> 'w"
  pl_configure_host :: "pyval \<Rightarrow> pyval \<Rightarrow> 'w \<Rightarrow> (error + pyval) \<times> 'w"
  pl_health_check :: "pyval \<Rightarrow> pyval \<Rightarrow> 'w \<Rightarrow> error + pyval"
  pl_restart :: "pyval \<Rightarrow> pyval \<Rightarrow> 'w \<Rightarrow> bool \<times> 'w"
  pl_delete :: "pyval \<Rightarrow> pyval \<Rightarrow> 'w \<Rightarrow> bool \<times> 'w"

text \<open>
  Modelled from the spec: a deployment request and the deployment record of section 3
  (the persistence layer and the controller are missing from the source). The record
  keeps the states the deployment has left, oldest first, and the plugin calls made
  for it, newest first, each with whether it returned normally.
\<close>

record request =
  rq_provider :: pyval
  rq_task :: pyval
  rq_name :: pyval
  rq_cloud_config :: pyval
  rq_app_config :: pyval

datatype 'pc call =
    CallProcess
  | CallSanitise
  | CallProvision 'pc
  | CallConfigure pyval
  | CallHealth
  | CallRestart
  | CallDelete

record 'pc deployment =
  dp_request :: request
  dp_status :: lifecycle
  dp_history :: "lifecycle list"
  dp_processed :: "'pc option"
  dp_sanitised :: "pyval option"
  dp_launch_result :: "pyval option"
  dp_error :: "error option"
  dp_calls :: "('pc call \<times> bool) list"

definition created :: "request \<Rightarrow> 'pc deployment" where
  "created rq =
     \<lparr> dp_request = rq, dp_status = CREATED, dp_history = [],
       dp_processed = None, dp_sanitised = None, dp_launch_result = None,
       dp_error = None, dp_calls = [] \<rparr>"

definition visited :: "'pc deployment \<Rightarrow> lifecycle list" where
  "visited d = dp_history d @ [dp_status d]"

definition enter :: "lifecycle \<Rightarrow> 'pc deployment \<Rightarrow> 'pc deployment" where
  "enter s d = d\<lparr> dp_status := s, dp_history := dp_history d @ [dp_status d] \<rparr>"

definition logged :: "'pc call \<Rightarrow> bool \<Rightarrow> 'pc deployment \<Rightarrow> 'pc deployment" where
  "logged c ok d = d\<lparr> dp_calls := (c, ok) # dp_calls d \<rparr>"

definition failed :: "error \<Rightarrow> 'pc deployment \<Rightarrow> 'pc deployment" where
  "failed e d = enter ERROR (d\<lparr> dp_error := Some e \<rparr>)"

definition status_name :: "lifecycle \<Rightarrow> string" where
  "status_name s =
     (case s of
        CREATED \<Rightarrow> ''created'' | VALIDATING \<Rightarrow> ''validating''
      | PROVISIONING \<Rightarrow> ''provisioning'' | CONFIGURING \<Rightarrow> ''configuring''
      | HEALTHY \<Rightarrow> ''healthy'' | UNHEALTHY \<Rightarrow> ''unhealthy''
      | DELETING \<Rightarrow> ''deleting'' | DELETED \<Rightarrow> ''deleted'' | ERROR \<Rightarrow> ''error'')"

text \<open>Modelled from the spec: the deployment as the controller (missing from the
  source) hands it to \<^verbatim>\<open>health_check\<close>, \<^verbatim>\<open>restart\<close> and \<^verbatim>\<open>delete\<close>, a
  dictionary with the keys \<^verbatim>\<open>launch_result\<close> and \<^verbatim>\<open>launch_status\<close>; the host
  handed to \<^verbatim>\<open>configure_host\<close>, the value under \<^verbatim>\<open>host\<close> of the launch result;
  and the report that confirms a deletion, \<^verbatim>\<open>instance_status = deleted\<close>.\<close>

definition deployment_dict :: "'pc deployment \<Rightarrow> pyval" where
  "deployment_dict d =
     PyDict [ (''launch_result'',
                 (case dp_launch_result d of None \<Rightarrow> PyNone | Some r \<Rightarrow> r)),
              (''launch_status'', PyStr (status_name (dp_status d))) ]"

definition host_of :: "pyval \<Rightarrow> pyval" where
  "host_of result = (case dict_get result ''host'' of None \<Rightarrow> PyNone | Some h \<Rightarrow> h)"

definition reports_deleted :: "error + pyval \<Rightarrow> bool" where
  "reports_deleted r =
     (case r of
        Inl e \<Rightarrow> False
      | Inr report \<Rightarrow> instance_status report = Some (PyStr ''deleted''))"

text \<open>
  Modelled from the spec: the transitions of section 4.2 (the Lifecycle Controller is
  missing from the source), one function for each thing that can happen to a
  deployment. What makes a report healthy is app-specific, so it is the parameter
  \<open>healthy\<close>.
\<close>

datatype event = Intake | Work | Poll | RestartRequest | DeleteRequest

text \<open>Modelled from the spec: request intake (section 4.2; the controller is missing
  from the source). From \<open>CREATED\<close> the deployment is \<open>VALIDATING\<close>, the validator
  and then the sanitiser are called, and the deployment goes on to \<open>PROVISIONING\<close>,
  or to \<open>ERROR\<close> at once when the validator fails.\<close>

definition on_intake ::
  "('w, 'pc) plugin \<Rightarrow> 'pc deployment \<times> 'w \<Rightarrow> 'pc deployment \<times> 'w" where
  "on_intake p s =
     (case s of (d, w) \<Rightarrow>
        if dp_status d \<noteq> CREATED then (d, w)
        else
          let rq = dp_request d; d1 = enter VALIDATING d in
          (case pl_process_app_config p (rq_provider rq) (rq_name rq)
                  (rq_cloud_config rq) (rq_app_config rq) of
             Inl e \<Rightarrow> (failed e (logged CallProcess False d1), w)
           | Inr pc \<Rightarrow>
               (enter PROVISIONING
                  (logged CallSanitise True (logged CallProcess True
                     (d1\<lparr> dp_processed := Some pc,
                          dp_sanitised :=
                            Some (pl_sanitise_app_config p (rq_app_config rq)) \<rparr>))),
                w)))"

text \<open>Modelled from the spec: the asynchronous worker (section 4.2; missing from the
  source). It provisions with the processed configuration, then configures the host
  the provisioner returned. A failure of either leads to \<open>ERROR\<close>; a provisioning
  error keeps the partial result it attributes, a configuration error keeps the host.\<close>

definition on_work ::
  "('w, 'pc) plugin \<Rightarrow> 'pc deployment \<times> 'w \<Rightarrow> 'pc deployment \<times> 'w" where
  "on_work p s =
     (case s of (d, w) \<Rightarrow>
        let rq = dp_request d in
        if dp_status d = PROVISIONING then
          (case dp_processed d of
             None \<Rightarrow> (d, w)
           | Some pc \<Rightarrow>
               (case pl_provision_host p (rq_provider rq) (rq_task rq) (rq_name rq)
                       (rq_cloud_config rq) (rq_app_config rq) pc w of
                  (Inl e, w') \<Rightarrow>
                    (failed e (logged (CallProvision pc) False
                       (d\<lparr> dp_launch_result :=
                              (case e of ProvisioningError partial \<Rightarrow> Some partial
                                       | _ \<Rightarrow> None) \<rparr>)),
                     w')
                | (Inr r, w') \<Rightarrow>
                    (enter CONFIGURING (logged (CallProvision pc) True
                       (d\<lparr> dp_launch_result := Some r \<rparr>)),
                     w')))
        else if dp_status d = CONFIGURING then
          (case dp_launch_result d of
             None \<Rightarrow> (d, w)
           | Some r \<Rightarrow>
               (case pl_configure_host p (host_of r) (rq_app_config rq) w of
                  (Inl e, w') \<Rightarrow> (failed e (logged (CallConfigure (host_of r)) False d), w')
                | (Inr c, w') \<Rightarrow>
                    (enter HEALTHY (logged (CallConfigure (host_of r)) True d), w')))
        else (d, w))"

text \<open>Modelled from the spec: the controller's call of \<^verbatim>\<open>health_check\<close> (section
  4.1: read-only; the controller is missing from the source). It gives the report, the
  deployment with the call logged, and the world.\<close>

definition health_probe ::
  "('w, 'pc) plugin \<Rightarrow> 'pc deployment \<times> 'w \<Rightarrow> (error + pyval) \<times> 'pc deployment \<times> 'w" where
  "health_probe p s =
     (case s of (d, w) \<Rightarrow>
        let r = pl_health_check p (rq_provider (dp_request d)) (deployment_dict d) w in
        (r, logged CallHealth (case r of Inl e \<Rightarrow> False | Inr report \<Rightarrow> True) d, w))"

definition judged :: "(pyval \<Rightarrow> bool) \<Rightarrow> error + pyval \<Rightarrow> bool" where
  "judged healthy r = (case r of Inl e \<Rightarrow> False | Inr report \<Rightarrow> healthy report)"

text \<open>Modelled from the spec: a poll (section 4.2; the controller is missing from the
  source). The health check is called; between \<open>HEALTHY\<close> and \<open>UNHEALTHY\<close> the
  controller lets the status follow the report, elsewhere the status stays.\<close>

definition on_poll ::
  "('w, 'pc) plugin \<Rightarrow> (pyval \<Rightarrow> bool) \<Rightarrow> 'pc deployment \<times> 'w \<Rightarrow> 'pc deployment \<times> 'w" where
  "on_poll p healthy s =
     (case health_probe p s of (r, d1, w1) \<Rightarrow>
        if dp_status d1 = HEALTHY \<and> \<not> judged healthy r then (enter UNHEALTHY d1, w1)
        else if dp_status d1 = UNHEALTHY \<and> judged healthy r then (enter HEALTHY d1, w1)
        else (d1, w1))"

text \<open>Modelled from the spec: a restart of an unhealthy deployment, confirmed by a
  health check (section 4.2; the controller is missing from the source).\<close>

definition on_restart ::
  "('w, 'pc) plugin \<Rightarrow> (pyval \<Rightarrow> bool) \<Rightarrow> 'pc deployment \<times> 'w \<Rightarrow> 'pc deployment \<times> 'w" where
  "on_restart p healthy s =
     (case s of (d, w) \<Rightarrow>
        if dp_status d \<noteq> UNHEALTHY then (d, w)
        else
          (case pl_restart p (rq_provider (dp_request d)) (deployment_dict d) w of
             (ok, w') \<Rightarrow>
               if \<not> ok then (logged CallRestart ok d, w')
               else
                 (case health_probe p (logged CallRestart ok d, w') of
                    (r, d1, w1) \<Rightarrow>
                      if judged healthy r then (enter HEALTHY d1, w1) else (d1, w1))))"

text \<open>Modelled from the spec: a delete request (section 4.2; the controller is missing
  from the source), allowed from any state but \<open>DELETED\<close>. The deployment is
  \<open>DELETING\<close>, \<^verbatim>\<open>delete\<close> is called, and whatever it answers the deployment
  is \<open>DELETED\<close> once a health check reports the instance deleted; until then it
  stays \<open>DELETING\<close>.\<close>

definition on_delete ::
  "('w, 'pc) plugin \<Rightarrow> 'pc deployment \<times> 'w \<Rightarrow> 'pc deployment \<times> 'w" where
  "on_delete p s =
     (case s of (d, w) \<Rightarrow>
        if dp_status d = DELETED then (d, w)
        else
          let d1 = (if dp_status d = DELETING then d else enter DELETING d) in
          (case pl_delete p (rq_provider (dp_request d1)) (deployment_dict d1) w of
             (ok, w') \<Rightarrow>
               (case health_probe p (logged CallDelete ok d1, w') of
                  (r, d2, w2) \<Rightarrow>
                    if reports_deleted r then (enter DELETED d2, w2) else (d2, w2))))"

text \<open>Modelled from the spec: the state machine of section 4.2 as one step function
  over the events, and its executions (the controller is missing from the source).\<close>

fun step ::
  "('w, 'pc) plugin \<Rightarrow> (pyval \<Rightarrow> bool) \<Rightarrow> event \<Rightarrow> 'pc deployment \<times> 'w
   \<Rightarrow> 'pc deployment \<times> 'w" where
  "step p healthy Intake s = on_intake p s"
| "step p healthy Work s = on_work p s"
| "step p healthy Poll s = on_poll p healthy s"
| "step p healthy RestartRequest s = on_restart p healthy s"
| "step p healthy DeleteRequest s = on_delete p s"

fun run ::
  "('w, 'pc) plugin \<Rightarrow> (pyval \<Rightarrow> bool) \<Rightarrow> event list \<Rightarrow> 'pc deployment \<times> 'w
   \<Rightarrow> 'pc deployment \<times> 'w" where
  "run p healthy [] s = s"
| "run p healthy (e # es) s = run p healthy es (step p healthy e s)"




subsection \<open>A plugin to run the controller on\<close>

text \<open>
  A small plugin over a provider that is the list of its instances. It requires the
  key \<^verbatim>\<open>image\<close> in the application configuration, cannot provision under the name
  \<^verbatim>\<open>full\<close>, and reports an instance it does not find as deleted.
\<close>

definition demo_status :: "provider_state \<Rightarrow> string" where
  "demo_status w = (if provider_finds w ''demo-vm'' then ''running'' else ''deleted'')"

definition demo_plugin :: "(provider_state, pyval) plugin" where
  "demo_plugin =
     \<lparr> pl_process_app_config =
         (\<lambda>provider name cc ac.
            if has_key ac ''image'' then Inr (PyDict [(''cfg'', ac)])
            else Inl (ValidationError [(''image'', ''this field is required'')])),
       pl_sanitise_app_config = (\<lambda>ac. PyDict []),
       pl_provision_host =
         (\<lambda>provider task name cc ac pc w.
            if name = PyStr ''full'' then (Inl (ProvisioningError (PyDict [])), w)
            else
              (Inr (PyDict [ (''cloudLaunch'', pc),
                             (''host'', PyDict [ (''address'', PyStr ''10.0.0.7''),
                                                 (''pk'', PyStr ''key''),
                                                 (''user'', PyStr ''ubuntu'') ]) ]),
               ''demo-vm'' # w)),
       pl_configure_host = (\<lambda>host ac w. (Inr (PyDict []), w)),
       pl_health_check =
         (\<lambda>provider deployment w.
            Inr (PyDict [(''instance_status'', PyStr (demo_status w))])),
       pl_restart = (\<lambda>provider deployment w. (True, w)),
       pl_delete = (\<lambda>provider deployment w. (True, removeAll ''demo-vm'' w)) \<rparr>"

text \<open>
  The same plugin with another representation of the processed configuration: its
  validator returns the application configuration bare, and its provisioner wraps it
  under \<^verbatim>\<open>cfg\<close> before doing what the plugin above does.
\<close>

definition demo_wrap :: "pyval \<Rightarrow> pyval" where
  "demo_wrap ac = PyDict [(''cfg'', ac)]"

definition bare_demo_plugin :: "(provider_state, pyval) plugin" where
  "bare_demo_plugin =
     \<lparr> pl_process_app_config =
         (\<lambda>provider name cc ac.
            if has_key ac ''image'' then Inr ac
            else Inl (ValidationError [(''image'', ''this field is required'')])),
       pl_sanitise_app_config = pl_sanitise_app_config demo_plugin,
       pl_provision_host =
         (\<lambda>provider task name cc ac pc.
            pl_provision_host demo_plugin provider task name cc ac (demo_wrap pc)),
       pl_configure_host = pl_configure_host demo_plugin,
       pl_health_check = pl_health_check demo_plugin,
       pl_restart = pl_restart demo_plugin,
       pl_delete = pl_delete demo_plugin \<rparr>"

definition demo_healthy :: "pyval \<Rightarrow> bool" where
  "demo_healthy report = (instance_status report = Some (PyStr ''running''))"

definition demo_request :: "pyval \<Rightarrow> pyval \<Rightarrow> request" where
  "demo_request name app_config =
     \<lparr> rq_provider = PyObj ''provider'', rq_task = PyObj ''task'', rq_name = name,
       rq_cloud_config = PyDict [], rq_app_config = app_config \<rparr>"

text \<open>A deployment whose instance, \<^verbatim>\<open>demo-vm\<close>, a provider without instances does
  not find.\<close>

definition gone_deployment :: pyval where
  "gone_deployment =
     PyDict [ (''launch_result'',
                 PyDict [ (''cloudLaunch'',
                             PyDict [(''instance'', PyDict [(''id'', PyStr ''demo-vm'')])]),
                          (''host'', PyDict [ (''address'', PyStr ''10.0.0.7''),
                                              (''pk'', PyStr ''key''),
                                              (''user'', PyStr ''ubuntu'') ]) ]),
              (''launch_status'', PyStr ''SUCCESS'') ]"

subsection \<open>Invariants of the controller\<close>





text \<open>Whatever processed configuration the record or the log holds is the one the
  validator answered with.\<close>

definition capsule_inv ::
  "('w, 'pc) plugin \<Rightarrow> request \<Rightarrow> 'pc deployment \<times> 'w \<Rightarrow> bool" where
  "capsule_inv p rq s =
     (let d = fst s;
          answer = pl_process_app_config p (rq_provider rq) (rq_name rq)
                     (rq_cloud_config rq) (rq_app_config rq) in
      dp_request d = rq
      \<and> (dp_status d = PROVISIONING \<longrightarrow> dp_processed d \<noteq> None)
      \<and> (\<forall>pc. dp_processed d = Some pc \<longrightarrow> answer = Inr pc)
      \<and> (\<forall>x \<in> set (dp_calls d). \<forall>pc. fst x = CallProvision pc \<longrightarrow> answer = Inr pc))"

text \<open>
  A deployment seen through a translation \<open>g\<close> of processed configurations: the
  stored configuration and the ones in the log are translated, nothing else changes.
\<close>

definition seal :: "('pc \<Rightarrow> 'q) \<Rightarrow> 'pc deployment \<Rightarrow> 'q deployment" where
  "seal g d =
     \<lparr> dp_request = dp_request d, dp_status = dp_status d, dp_history = dp_history d,
       dp_processed = map_option g (dp_processed d), dp_sanitised = dp_sanitised d,
       dp_launch_result = dp_launch_result d, dp_error = dp_error d,
       dp_calls = map (\<lambda>x. (map_call g (fst x), snd x)) (dp_calls d) \<rparr>"

definition carried :: "('pc \<Rightarrow> 'q) \<Rightarrow> 'pc deployment \<times> 'w \<Rightarrow> 'q deployment \<times> 'w" where
  "carried g s = (seal g (fst s), snd s)"

section \<open>Properties\<close>

subsection \<open>The class as written\<close>

lemma interface_bindings_eq:
  "interface_bindings =
     [ (''process_app_config'', Static), (''sanitise_app_config'', Static),
       (''provision_host'', Instance), (''configure_host'', Instance),
       (''health_check'', Instance), (''restart'', Instance), (''delete'', Instance) ]"
  by (simp add: interface_bindings_def AppPlugin_def)

lemma conforms_static:
  assumes c: "conforms cls"
    and m: "m = ''process_app_config'' \<or> m = ''sanitise_app_config''"
  shows "\<exists>md. map_of (cs_methods cls) m = Some md \<and> md_binding md = Static"
  using c m
  by (auto simp: conforms_def interface_bindings_eq split: option.splits)

lemma AppPlugin_conforms: "conforms (AppPlugin :: 'w class_stmt)"
  by (simp add: conforms_def interface_bindings_eq AppPlugin_def)

lemma AppPlugin_instantiate: "instantiate (AppPlugin :: 'w class_stmt) = Inr (PyObj ''AppPlugin'')"
  by (simp add: instantiate_def abstractmethods_def effective_metaclass_def AppPlugin_def)

text \<open>
  Had the header named the metaclass, as \<^verbatim>\<open>class AppPlugin(metaclass=abc.ABCMeta)\<close>,
  all seven operations would be collected as abstract and creating an instance would
  raise.
\<close>

lemma AppPlugin_with_metaclass_keyword:
  "abstractmethods ((AppPlugin :: 'w class_stmt)\<lparr> cs_metaclass_kw := Some ABCMeta \<rparr>)
     = map fst interface_bindings
   \<and> instantiate ((AppPlugin :: 'w class_stmt)\<lparr> cs_metaclass_kw := Some ABCMeta \<rparr>)
     = Inl TypeError"
  by (simp add: instantiate_def abstractmethods_def effective_metaclass_def AppPlugin_def
      interface_bindings_eq)

text \<open>
  C9. \<^verbatim>\<open>AppPlugin\<close> can be instantiated: the assignment to \<^verbatim>\<open>__metaclass__\<close> is an
  attribute like any other, the metaclass is \<^verbatim>\<open>type\<close>, so no abstract method is
  collected and creating an instance does not raise. Each of the seven operations
  returns \<^verbatim>\<open>None\<close> on every input and leaves the world as it was; \<^verbatim>\<open>None\<close> is
  neither a boolean nor a dictionary with keys, which is what the docstrings promise.
\<close>

theorem AppPlugin_instantiable_all_return_None:
  "cs_metaclass_kw (AppPlugin :: 'w class_stmt) = None
   \<and> cs_dunder_metaclass (AppPlugin :: 'w class_stmt) = Some ABCMeta
   \<and> effective_metaclass (AppPlugin :: 'w class_stmt) = TypeMeta
   \<and> abstractmethods (AppPlugin :: 'w class_stmt) = []
   \<and> instantiate (AppPlugin :: 'w class_stmt) = Inr (PyObj ''AppPlugin'')
   \<and> process_app_config provider name cloud_config app_config (w :: 'w) = (Inr PyNone, w)
   \<and> sanitise_app_config app_config w = (Inr PyNone, w)
   \<and> provision_host self provider task name cloud_config app_config user_data w
       = (Inr PyNone, w)
   \<and> configure_host self host_config app_config w = (Inr PyNone, w)
   \<and> health_check self provider deployment w = (Inr PyNone, w)
   \<and> restart self provider deployment w = (Inr PyNone, w)
   \<and> delete self provider deployment w = (Inr PyNone, w)
   \<and> \<not> is_bool PyNone \<and> dict_keys PyNone = {}"
  by (simp add: effective_metaclass_def abstractmethods_def instantiate_def AppPlugin_def
      process_app_config_def sanitise_app_config_def provision_host_def
      configure_host_def health_check_def restart_def delete_def is_bool_def dict_keys_def)

text \<open>
  C10. \<^verbatim>\<open>process_app_config\<close> and \<^verbatim>\<open>sanitise_app_config\<close> are declared static. In
  every class that conforms to the interface, calling either of them through two
  instances with the same arguments, in the same world, gives the same outcome: the
  instance is never handed to the body, which sees its explicit arguments only.
\<close>

theorem static_operations_ignore_instance:
  assumes "conforms cls"
    and "m = ''process_app_config'' \<or> m = ''sanitise_app_config''"
  shows "call_method cls m inst1 args w = call_method cls m inst2 args w
         \<and> map_of interface_bindings m = Some Static
         \<and> (\<exists>md. map_of (cs_methods cls) m = Some md
                \<and> call_method cls m inst1 args w = md_body md args w)"
proof -
  obtain md where md: "map_of (cs_methods cls) m = Some md" "md_binding md = Static"
    using conforms_static [OF assms] by blast
  then have "\<And>inst. call_method cls m inst args w = md_body md args w"
    by (simp add: call_method_def)
  moreover have "map_of interface_bindings m = Some Static"
    using assms(2) by (auto simp: interface_bindings_eq)
  ultimately show ?thesis using md by simp
qed

theorem static_operations_ignore_instance_witness:
  "conforms (AppPlugin :: unit class_stmt)
   \<and> call_method AppPlugin ''process_app_config'' (PyObj ''plugin_a'')
        [PyObj ''provider'', PyStr ''demo'', PyDict [], PyDict [(''password'', PyStr ''s3'')]] ()
     = call_method AppPlugin ''process_app_config'' (PyObj ''plugin_b'')
        [PyObj ''provider'', PyStr ''demo'', PyDict [], PyDict [(''password'', PyStr ''s3'')]] ()
   \<and> map_of interface_bindings ''process_app_config'' = Some Static"
proof -
  have c: "conforms (AppPlugin :: unit class_stmt)"
    by (rule AppPlugin_conforms)
  show ?thesis
    using c static_operations_ignore_instance [OF c, of "''process_app_config''"]
    by simp
qed

subsection \<open>The two static operations\<close>

text \<open>
  C2. For every application configuration, with or without its optional fields, and
  whatever set of keys a plugin declares sensitive, the output of
  \<^verbatim>\<open>sanitise_app_config\<close> contains none of them, and the call leaves the world as it
  found it. The operation in the source returns \<^verbatim>\<open>None\<close>, which has no key at all.
\<close>

theorem sanitise_app_config_output_safe:
  "fst (sanitise_app_config app_config w) = Inr PyNone
   \<and> snd (sanitise_app_config app_config w) = w
   \<and> (\<exists>out. fst (sanitise_app_config app_config w) = Inr out
          \<and> dict_keys out \<inter> sensitive = {})
   \<and> call_method AppPlugin ''sanitise_app_config'' inst [app_config] w = (Inr PyNone, w)"
  by (simp add: sanitise_app_config_def dict_keys_def call_method_def AppPlugin_def
      sanitise_app_config_fn_def)

text \<open>
  C5. Two calls of \<^verbatim>\<open>process_app_config\<close> with the same provider, name, cloud
  configuration and application configuration return the same value, in whatever
  worlds they run, and each leaves its world untouched: the provider is not contacted.
  This holds for every input, so for those a schema accepts.
\<close>

theorem process_app_config_deterministic:
  "fst (process_app_config provider name cloud_config app_config w1)
     = fst (process_app_config provider name cloud_config app_config w2)
   \<and> snd (process_app_config provider name cloud_config app_config w1) = w1
   \<and> snd (process_app_config provider name cloud_config app_config w2) = w2
   \<and> (\<exists>pc. fst (process_app_config provider name cloud_config app_config w1) = Inr pc)"
  by (simp add: process_app_config_def)

subsection \<open>The documented return contracts\<close>

text \<open>
  C1, on the source. \<^verbatim>\<open>provision_host\<close> on an instance of \<^verbatim>\<open>AppPlugin\<close> returns
  normally, for every input, and what it returns is \<^verbatim>\<open>None\<close>: a value without the
  key \<^verbatim>\<open>host\<close> and without the other key, whether spelled \<^verbatim>\<open>cloudlaunch\<close> or, as
  the docstring has it, \<^verbatim>\<open>cloudLaunch\<close>. The result does not meet the return contract
  the docstring documents.
\<close>

theorem provision_host_returns_None_without_keys:
  "instantiate (AppPlugin :: provider_state class_stmt) = Inr (PyObj ''AppPlugin'')
   \<and> call_method AppPlugin ''provision_host'' (PyObj ''AppPlugin'')
        [PyObj ''provider'', PyObj ''task'', PyStr ''demo'', PyDict [],
         PyDict [(''image'', PyStr ''ubuntu'')], PyNone] ([] :: provider_state)
       = (Inr PyNone, [])
   \<and> provision_host self provider task name cloud_config app_config user_data w
       = (Inr PyNone, w)
   \<and> \<not> has_key PyNone ''cloudlaunch'' \<and> \<not> has_key PyNone ''cloudLaunch''
   \<and> \<not> has_key PyNone ''host'' \<and> dict_get PyNone ''host'' = None
   \<and> \<not> meets_all provision_host_returns PyNone"
proof -
  have "call_method AppPlugin ''provision_host'' (PyObj ''AppPlugin'')
          [PyObj ''provider'', PyObj ''task'', PyStr ''demo'', PyDict [],
           PyDict [(''image'', PyStr ''ubuntu'')], PyNone] ([] :: provider_state)
        = (Inr PyNone, [])"
    by (simp add: call_method_def AppPlugin_def provision_host_fn_def provision_host_def)
  then show ?thesis
    by (simp add: AppPlugin_instantiate provision_host_def has_key_def dict_get_def
        meets_all_def provision_host_returns_def)
qed


text \<open>
  C4, on the source. An instance of \<^verbatim>\<open>AppPlugin\<close> exists, and its \<^verbatim>\<open>health_check\<close>,
  asked about a deployment whose instance the provider does not find, returns
  \<^verbatim>\<open>None\<close>: it does not raise, but the report has no \<^verbatim>\<open>instance_status\<close>, where the
  docstring promises \<^verbatim>\<open>deleted\<close>. The same holds for every input.
\<close>

theorem health_check_missing_instance_returns_None:
  "instantiate (AppPlugin :: provider_state class_stmt) = Inr (PyObj ''AppPlugin'')
   \<and> \<not> provider_finds [] ''demo-vm''
   \<and> call_method AppPlugin ''health_check'' (PyObj ''AppPlugin'')
        [PyObj ''provider'', gone_deployment] ([] :: provider_state) = (Inr PyNone, [])
   \<and> health_check self provider deployment w = (Inr PyNone, w)
   \<and> instance_status PyNone = None
   \<and> instance_status PyNone \<noteq> Some (PyStr ''deleted'')"
proof -
  have "call_method AppPlugin ''health_check'' (PyObj ''AppPlugin'')
          [PyObj ''provider'', gone_deployment] ([] :: provider_state) = (Inr PyNone, [])"
    by (simp add: call_method_def AppPlugin_def health_check_fn_def health_check_def)
  then show ?thesis
    by (simp add: AppPlugin_instantiate provider_finds_def health_check_def
        instance_status_def dict_get_def)
qed

text \<open>
  C6, on the source. \<^verbatim>\<open>delete\<close> on an instance of \<^verbatim>\<open>AppPlugin\<close> does not raise,
  the first time or the second, whatever is left of the deployment; what it returns
  both times is \<^verbatim>\<open>None\<close>, which is not a boolean.
\<close>

theorem delete_returns_None_not_bool:
  "instantiate (AppPlugin :: provider_state class_stmt) = Inr (PyObj ''AppPlugin'')
   \<and> call_method AppPlugin ''delete'' (PyObj ''AppPlugin'')
        [PyObj ''provider'', gone_deployment] ([] :: provider_state) = (Inr PyNone, [])
   \<and> delete self provider deployment w = (Inr PyNone, w)
   \<and> delete self provider deployment (snd (delete self provider deployment w))
       = (Inr PyNone, w)
   \<and> \<not> is_bool PyNone"
proof -
  have "call_method AppPlugin ''delete'' (PyObj ''AppPlugin'')
          [PyObj ''provider'', gone_deployment] ([] :: provider_state) = (Inr PyNone, [])"
    by (simp add: call_method_def AppPlugin_def delete_fn_def delete_def)
  then show ?thesis
    by (simp add: AppPlugin_instantiate delete_def is_bool_def)
qed

subsection \<open>The controller\<close>

lemmas ctl_defs = on_intake_def on_work_def on_poll_def on_restart_def on_delete_def
  enter_def logged_def failed_def visited_def Let_def health_probe_def judged_def

lemma run_invariant:
  assumes "\<And>e s. I s \<Longrightarrow> I (step p healthy e s)" and "I s"
  shows "I (run p healthy evs s)"
  using assms(2)
proof (induction evs arbitrary: s)
  case Nil
  then show ?case by simp
next
  case (Cons e es)
  then show ?case using assms(1) by simp
qed















lemma capsule_inv_step: "capsule_inv p rq s \<Longrightarrow> capsule_inv p rq (step p healthy ev s)"
proof (cases s)
  case (Pair d w)
  assume inv: "capsule_inv p rq s"
  show ?thesis
  proof (cases ev)
    case Intake
    then show ?thesis using inv Pair
      by (auto simp: capsule_inv_def ctl_defs split: sum.splits)
  next
    case Work
    then show ?thesis using inv Pair
      by (auto simp: capsule_inv_def ctl_defs split: sum.splits option.splits prod.splits)
  next
    case Poll
    then show ?thesis using inv Pair
      by (auto simp: capsule_inv_def ctl_defs)
  next
    case RestartRequest
    then show ?thesis using inv Pair
      by (auto simp: capsule_inv_def ctl_defs split: sum.splits prod.splits)
  next
    case DeleteRequest
    then show ?thesis using inv Pair
      by (auto simp: capsule_inv_def ctl_defs split: prod.splits)
  qed
qed

lemma capsule_inv_run: "capsule_inv p rq (run p healthy evs (created rq, w))"
proof -
  have "capsule_inv p rq (created rq, w)"
    by (simp add: capsule_inv_def created_def)
  then show ?thesis
    using capsule_inv_step by (rule run_invariant [rotated])
qed

lemma intake_stores_answer:
  assumes "pl_process_app_config p (rq_provider rq) (rq_name rq)
             (rq_cloud_config rq) (rq_app_config rq) = Inr pc"
  shows "dp_processed (fst (on_intake p (created rq, w))) = Some pc
         \<and> dp_status (fst (on_intake p (created rq, w))) = PROVISIONING"
  using assms by (simp add: ctl_defs created_def)

lemma work_hands_over:
  assumes "dp_status d = PROVISIONING" and "dp_processed d = Some pc"
  shows "\<exists>ok. dp_calls (fst (on_work p (d, w))) = (CallProvision pc, ok) # dp_calls d"
  using assms by (auto simp: ctl_defs split: sum.splits prod.splits)

lemma work_outcome:
  assumes "dp_status d = PROVISIONING" and "dp_processed d = Some pc"
  shows "snd (on_work p (d, v))
           = snd (pl_provision_host p (rq_provider (dp_request d)) (rq_task (dp_request d))
                    (rq_name (dp_request d)) (rq_cloud_config (dp_request d))
                    (rq_app_config (dp_request d)) pc v)
         \<and> (\<forall>r. fst (pl_provision_host p (rq_provider (dp_request d))
                       (rq_task (dp_request d)) (rq_name (dp_request d))
                       (rq_cloud_config (dp_request d)) (rq_app_config (dp_request d)) pc v)
                  = Inr r
                \<longrightarrow> dp_launch_result (fst (on_work p (d, v))) = Some r
                    \<and> dp_status (fst (on_work p (d, v))) = CONFIGURING)
         \<and> (\<forall>e. fst (pl_provision_host p (rq_provider (dp_request d))
                       (rq_task (dp_request d)) (rq_name (dp_request d))
                       (rq_cloud_config (dp_request d)) (rq_app_config (dp_request d)) pc v)
                  = Inl e
                \<longrightarrow> dp_error (fst (on_work p (d, v))) = Some e
                    \<and> dp_status (fst (on_work p (d, v))) = ERROR)"
  using assms
  by (cases "pl_provision_host p (rq_provider (dp_request d)) (rq_task (dp_request d))
               (rq_name (dp_request d)) (rq_cloud_config (dp_request d))
               (rq_app_config (dp_request d)) pc v")
     (auto simp: ctl_defs split: sum.splits)

lemma reachable_work_outcome:
  assumes "dp_status (fst (run p healthy evs (created rq, w))) = PROVISIONING"
  shows "\<exists>pc. pl_process_app_config p (rq_provider rq) (rq_name rq) (rq_cloud_config rq)
                (rq_app_config rq) = Inr pc
          \<and> snd (on_work p (run p healthy evs (created rq, w)))
              = snd (pl_provision_host p (rq_provider rq) (rq_task rq) (rq_name rq)
                       (rq_cloud_config rq) (rq_app_config rq) pc
                       (snd (run p healthy evs (created rq, w))))
          \<and> (\<forall>r. fst (pl_provision_host p (rq_provider rq) (rq_task rq) (rq_name rq)
                          (rq_cloud_config rq) (rq_app_config rq) pc
                          (snd (run p healthy evs (created rq, w)))) = Inr r
                 \<longrightarrow> dp_launch_result (fst (on_work p (run p healthy evs (created rq, w))))
                       = Some r
                     \<and> dp_status (fst (on_work p (run p healthy evs (created rq, w))))
                       = CONFIGURING)
          \<and> (\<forall>e. fst (pl_provision_host p (rq_provider rq) (rq_task rq) (rq_name rq)
                          (rq_cloud_config rq) (rq_app_config rq) pc
                          (snd (run p healthy evs (created rq, w)))) = Inl e
                 \<longrightarrow> dp_error (fst (on_work p (run p healthy evs (created rq, w)))) = Some e
                     \<and> dp_status (fst (on_work p (run p healthy evs (created rq, w))))
                       = ERROR)"
proof -
  obtain d v where s: "run p healthy evs (created rq, w) = (d, v)"
    by (cases "run p healthy evs (created rq, w)")
  have inv: "capsule_inv p rq (d, v)"
    using capsule_inv_run [of p rq healthy evs w] s by simp
  have st: "dp_status d = PROVISIONING"
    using assms s by simp
  then obtain pc where pc: "dp_processed d = Some pc"
    using inv by (auto simp: capsule_inv_def Let_def)
  have rq: "dp_request d = rq"
    and ans: "pl_process_app_config p (rq_provider rq) (rq_name rq) (rq_cloud_config rq)
                (rq_app_config rq) = Inr pc"
    using inv pc by (simp_all add: capsule_inv_def Let_def)
  show ?thesis
    using work_outcome [OF st pc, of p v] ans s rq by auto
qed

lemma seal_created: "carried g (created rq, w) = (created rq, w)"
  by (simp add: carried_def created_def seal_def)

lemma intake_carried:
  assumes "pl_process_app_config q
             = (\<lambda>a b c d. map_sum id g (pl_process_app_config p a b c d))"
    and "pl_sanitise_app_config q = pl_sanitise_app_config p"
  shows "on_intake q (carried g s) = carried g (on_intake p s)"
  using assms
  by (cases s)
     (auto simp: carried_def on_intake_def Let_def enter_def logged_def failed_def seal_def
           split: sum.splits)

lemma work_carried:
  assumes "pl_provision_host p
             = (\<lambda>a b c d e pc. pl_provision_host q a b c d e (g pc))"
    and "pl_configure_host q = pl_configure_host p"
  shows "on_work q (carried g s) = carried g (on_work p s)"
  using assms
  by (cases s)
     (auto simp: carried_def on_work_def Let_def enter_def logged_def failed_def seal_def
           split: sum.splits option.splits prod.splits)

lemma poll_carried:
  assumes "pl_health_check q = pl_health_check p"
  shows "on_poll q healthy (carried g s) = carried g (on_poll p healthy s)"
  using assms
  by (cases s)
     (auto simp: carried_def on_poll_def health_probe_def judged_def Let_def enter_def
           logged_def seal_def deployment_dict_def)

lemma restart_carried:
  assumes "pl_health_check q = pl_health_check p" and "pl_restart q = pl_restart p"
  shows "on_restart q healthy (carried g s) = carried g (on_restart p healthy s)"
  using assms
  by (cases s)
     (auto simp: carried_def on_restart_def health_probe_def judged_def Let_def enter_def
           logged_def seal_def deployment_dict_def split: prod.splits)

lemma delete_carried:
  assumes "pl_health_check q = pl_health_check p" and "pl_delete q = pl_delete p"
  shows "on_delete q (carried g s) = carried g (on_delete p s)"
  using assms
  by (cases s)
     (auto simp: carried_def on_delete_def health_probe_def Let_def enter_def logged_def
           seal_def deployment_dict_def split: prod.splits)

lemma run_carried:
  assumes "pl_process_app_config q
             = (\<lambda>a b c d. map_sum id g (pl_process_app_config p a b c d))"
    and "pl_sanitise_app_config q = pl_sanitise_app_config p"
    and "pl_provision_host p
             = (\<lambda>a b c d e pc. pl_provision_host q a b c d e (g pc))"
    and "pl_configure_host q = pl_configure_host p"
    and "pl_health_check q = pl_health_check p"
    and "pl_restart q = pl_restart p"
    and "pl_delete q = pl_delete p"
  shows "run q healthy evs (carried g s) = carried g (run p healthy evs s)"
proof (induction evs arbitrary: s)
  case Nil
  then show ?case by simp
next
  case (Cons ev evs)
  have "step q healthy ev (carried g s) = carried g (step p healthy ev s)"
    using assms
    by (cases ev)
       (simp_all add: intake_carried work_carried poll_carried restart_carried
          delete_carried)
  then show ?case
    using Cons.IH [of "step p healthy ev s"] by simp
qed

lemmas demo_defs = demo_plugin_def demo_request_def demo_status_def
  demo_healthy_def created_def has_key_def dict_get_def provider_finds_def
  instance_status_def reports_deleted_def deployment_dict_def host_of_def



text \<open>
  C8. The processed configuration goes from the validator to the provisioner
  unchanged, and the controller never looks into it. In every execution, each call of
  \<^verbatim>\<open>provision_host\<close> in the log was given the very value \<^verbatim>\<open>process_app_config\<close>
  returned for the request, and so is whatever the record holds; the intake stores the
  validator's answer as it is. Whenever an execution has brought the deployment to
  \<open>PROVISIONING\<close>, what the worker does next is what \<^verbatim>\<open>provision_host\<close> does
  when given the validator's answer: the world afterwards is the one that call leaves,
  the launch result is the one it returns, the error the one it raises. And the
  content of the processed configuration is nothing to the controller: of two plugins
  that differ only in how they represent it, one producing \<open>pc\<close> where the other
  produces \<open>g pc\<close> and expecting it so, every execution is the same, with \<open>g\<close>
  applied to the configurations stored and logged.
\<close>

theorem processed_config_round_trip:
  fixes p :: "('w, 'pc) plugin" and q :: "('w, 'q) plugin" and g :: "'pc \<Rightarrow> 'q"
  shows
  "(\<forall>x \<in> set (dp_calls (fst (run p healthy evs (created rq, w)))). \<forall>pc.
       fst x = CallProvision pc
       \<longrightarrow> pl_process_app_config p (rq_provider rq) (rq_name rq) (rq_cloud_config rq)
             (rq_app_config rq) = Inr pc)
   \<and> (\<forall>pc. dp_processed (fst (run p healthy evs (created rq, w))) = Some pc
       \<longrightarrow> pl_process_app_config p (rq_provider rq) (rq_name rq) (rq_cloud_config rq)
             (rq_app_config rq) = Inr pc)
   \<and> (pl_process_app_config p (rq_provider rq) (rq_name rq) (rq_cloud_config rq)
         (rq_app_config rq) = Inr pc0
       \<longrightarrow> dp_processed (fst (on_intake p (created rq, w))) = Some pc0)
   \<and> (dp_status d = PROVISIONING \<and> dp_processed d = Some pc1
       \<longrightarrow> (\<exists>ok. dp_calls (fst (on_work p (d, v))) = (CallProvision pc1, ok) # dp_calls d))
   \<and> (dp_status (fst (run p healthy evs' (created rq, w))) = PROVISIONING
       \<longrightarrow> (\<exists>pc. pl_process_app_config p (rq_provider rq) (rq_name rq) (rq_cloud_config rq)
                   (rq_app_config rq) = Inr pc
             \<and> snd (on_work p (run p healthy evs' (created rq, w)))
                 = snd (pl_provision_host p (rq_provider rq) (rq_task rq) (rq_name rq)
                          (rq_cloud_config rq) (rq_app_config rq) pc
                          (snd (run p healthy evs' (created rq, w))))
             \<and> (\<forall>r. fst (pl_provision_host p (rq_provider rq) (rq_task rq) (rq_name rq)
                             (rq_cloud_config rq) (rq_app_config rq) pc
                             (snd (run p healthy evs' (created rq, w)))) = Inr r
                    \<longrightarrow> dp_launch_result
                          (fst (on_work p (run p healthy evs' (created rq, w)))) = Some r
                        \<and> dp_status
                            (fst (on_work p (run p healthy evs' (created rq, w))))
                          = CONFIGURING)
             \<and> (\<forall>e. fst (pl_provision_host p (rq_provider rq) (rq_task rq) (rq_name rq)
                             (rq_cloud_config rq) (rq_app_config rq) pc
                             (snd (run p healthy evs' (created rq, w)))) = Inl e
                    \<longrightarrow> dp_error
                          (fst (on_work p (run p healthy evs' (created rq, w)))) = Some e
                        \<and> dp_status
                            (fst (on_work p (run p healthy evs' (created rq, w))))
                          = ERROR)))
   \<and> (pl_process_app_config q
         = (\<lambda>a b c d. map_sum id g (pl_process_app_config p a b c d))
       \<and> pl_provision_host p = (\<lambda>a b c d e pc. pl_provision_host q a b c d e (g pc))
       \<and> pl_sanitise_app_config q = pl_sanitise_app_config p
       \<and> pl_configure_host q = pl_configure_host p
       \<and> pl_health_check q = pl_health_check p
       \<and> pl_restart q = pl_restart p
       \<and> pl_delete q = pl_delete p
       \<longrightarrow> run q healthy evs' (created rq, w)
             = carried g (run p healthy evs' (created rq, w)))"
proof -
  have "pl_process_app_config q
          = (\<lambda>a b c d. map_sum id g (pl_process_app_config p a b c d))
        \<and> pl_provision_host p = (\<lambda>a b c d e pc. pl_provision_host q a b c d e (g pc))
        \<and> pl_sanitise_app_config q = pl_sanitise_app_config p
        \<and> pl_configure_host q = pl_configure_host p
        \<and> pl_health_check q = pl_health_check p
        \<and> pl_restart q = pl_restart p
        \<and> pl_delete q = pl_delete p
        \<longrightarrow> run q healthy evs' (created rq, w)
              = carried g (run p healthy evs' (created rq, w))"
    using run_carried [of q g p healthy evs' "(created rq, w)"]
    by (simp add: seal_created)
  then show ?thesis
    using capsule_inv_run [of p rq healthy evs w] intake_stores_answer [of p rq pc0 w]
      work_hands_over [of d pc1 p v] reachable_work_outcome [of p healthy evs' rq w]
    by (simp add: capsule_inv_def Let_def)
qed

theorem processed_config_round_trip_witness:
  "pl_process_app_config bare_demo_plugin (PyObj ''provider'') (PyStr ''demo'') (PyDict [])
      (PyDict [(''image'', PyStr ''ubuntu'')])
     = Inr (PyDict [(''image'', PyStr ''ubuntu'')])
   \<and> dp_calls (fst (run bare_demo_plugin demo_healthy [Intake, Work]
        (created (demo_request (PyStr ''demo'') (PyDict [(''image'', PyStr ''ubuntu'')])), [])))
     = [ (CallProvision (PyDict [(''image'', PyStr ''ubuntu'')]), True),
         (CallSanitise, True), (CallProcess, True) ]
   \<and> dp_processed (fst (run bare_demo_plugin demo_healthy [Intake, Work]
        (created (demo_request (PyStr ''demo'') (PyDict [(''image'', PyStr ''ubuntu'')])), [])))
     = Some (PyDict [(''image'', PyStr ''ubuntu'')])
   \<and> dp_status (fst (run bare_demo_plugin demo_healthy [Intake]
        (created (demo_request (PyStr ''demo'') (PyDict [(''image'', PyStr ''ubuntu'')])), [])))
     = PROVISIONING
   \<and> dp_processed (fst (on_intake bare_demo_plugin
        (created (demo_request (PyStr ''demo'') (PyDict [(''image'', PyStr ''ubuntu'')])), [])))
     = Some (PyDict [(''image'', PyStr ''ubuntu'')])
   \<and> on_work bare_demo_plugin (run bare_demo_plugin demo_healthy [Intake]
        (created (demo_request (PyStr ''demo'') (PyDict [(''image'', PyStr ''ubuntu'')])), []))
     = run bare_demo_plugin demo_healthy [Intake, Work]
        (created (demo_request (PyStr ''demo'') (PyDict [(''image'', PyStr ''ubuntu'')])), [])
   \<and> snd (run bare_demo_plugin demo_healthy [Intake, Work]
        (created (demo_request (PyStr ''demo'') (PyDict [(''image'', PyStr ''ubuntu'')])), []))
     = [''demo-vm'']
   \<and> dp_launch_result (fst (run bare_demo_plugin demo_healthy [Intake, Work]
        (created (demo_request (PyStr ''demo'') (PyDict [(''image'', PyStr ''ubuntu'')])), [])))
     = Some (PyDict [ (''cloudLaunch'', PyDict [(''cfg'', PyDict [(''image'', PyStr ''ubuntu'')])]),
                      (''host'', PyDict [ (''address'', PyStr ''10.0.0.7''),
                                          (''pk'', PyStr ''key''),
                                          (''user'', PyStr ''ubuntu'') ]) ])
   \<and> run demo_plugin demo_healthy [Intake]
        (created (demo_request (PyStr ''demo'') (PyDict [(''image'', PyStr ''ubuntu'')])), [])
     = carried demo_wrap (run bare_demo_plugin demo_healthy [Intake]
        (created (demo_request (PyStr ''demo'') (PyDict [(''image'', PyStr ''ubuntu'')])), []))"
proof -
  let ?rq = "demo_request (PyStr ''demo'') (PyDict [(''image'', PyStr ''ubuntu'')])"
  let ?pc = "PyDict [(''image'', PyStr ''ubuntu'')]"
  let ?d = "fst (on_intake bare_demo_plugin (created ?rq, ([] :: provider_state)))"
  have a: "dp_calls (fst (run bare_demo_plugin demo_healthy [Intake, Work] (created ?rq, [])))
     = [(CallProvision ?pc, True), (CallSanitise, True), (CallProcess, True)]"
    by (simp add: bare_demo_plugin_def demo_wrap_def demo_defs ctl_defs)
  have b: "dp_processed (fst (run bare_demo_plugin demo_healthy [Intake, Work]
             (created ?rq, []))) = Some ?pc"
    by (simp add: bare_demo_plugin_def demo_wrap_def demo_defs ctl_defs)
  have c: "pl_process_app_config bare_demo_plugin (rq_provider ?rq) (rq_name ?rq)
             (rq_cloud_config ?rq) (rq_app_config ?rq) = Inr ?pc"
    by (simp add: bare_demo_plugin_def demo_defs)
  have d: "dp_status ?d = PROVISIONING \<and> dp_processed ?d = Some ?pc"
    by (simp add: bare_demo_plugin_def demo_defs ctl_defs)
  have e: "dp_status (fst (run bare_demo_plugin demo_healthy [Intake] (created ?rq, [])))
             = PROVISIONING"
    by (simp add: bare_demo_plugin_def demo_defs ctl_defs)
  have f: "pl_process_app_config demo_plugin
             = (\<lambda>a b c d. map_sum id demo_wrap (pl_process_app_config bare_demo_plugin a b c d))
           \<and> pl_provision_host bare_demo_plugin
             = (\<lambda>a b c d e pc. pl_provision_host demo_plugin a b c d e (demo_wrap pc))
           \<and> pl_sanitise_app_config demo_plugin = pl_sanitise_app_config bare_demo_plugin
           \<and> pl_configure_host demo_plugin = pl_configure_host bare_demo_plugin
           \<and> pl_health_check demo_plugin = pl_health_check bare_demo_plugin
           \<and> pl_restart demo_plugin = pl_restart bare_demo_plugin
           \<and> pl_delete demo_plugin = pl_delete bare_demo_plugin"
    by (auto simp: bare_demo_plugin_def demo_plugin_def demo_wrap_def fun_eq_iff)
  have g: "on_work bare_demo_plugin (run bare_demo_plugin demo_healthy [Intake] (created ?rq, []))
             = run bare_demo_plugin demo_healthy [Intake, Work] (created ?rq, [])"
    by simp
  have h: "snd (run bare_demo_plugin demo_healthy [Intake, Work] (created ?rq, []))
             = [''demo-vm'']
           \<and> dp_launch_result (fst (run bare_demo_plugin demo_healthy [Intake, Work]
                (created ?rq, [])))
             = Some (PyDict [ (''cloudLaunch'', PyDict [(''cfg'', ?pc)]),
                              (''host'', PyDict [ (''address'', PyStr ''10.0.0.7''),
                                                  (''pk'', PyStr ''key''),
                                                  (''user'', PyStr ''ubuntu'') ]) ])"
    by (simp add: bare_demo_plugin_def demo_wrap_def demo_defs ctl_defs)
  have t: "run demo_plugin demo_healthy [Intake] (created ?rq, [])
             = carried demo_wrap (run bare_demo_plugin demo_healthy [Intake] (created ?rq, []))"
    using f e
      processed_config_round_trip [where p = bare_demo_plugin and q = demo_plugin
        and g = demo_wrap and healthy = demo_healthy and evs = "[Intake, Work]"
        and evs' = "[Intake]" and rq = ?rq and w = "[]" and ?pc0.0 = ?pc and d = ?d
        and ?pc1.0 = ?pc and v = "[]"]
    by blast
  show ?thesis
    using a b c d e g h t by (simp add: demo_request_def)
qed

end
